theory Spec2Isabelle
  imports Complex_Main "HOL-Library.Sublist"
begin

section \<open>JavaScript values used by the Box 1 calculator hook\<close>

text \<open>
  The hook \<^verbatim>\<open>useBox1Calculator\<close> (hooks/useBox1Calculator.js) and the table
  \<^verbatim>\<open>PERIOD_MULTIPLIERS\<close> (constants/box1Defaults.js) are embedded below.

  Numbers. A JavaScript number is modelled as an exact real or \<open>NaN\<close>. The
  rounding of IEEE doubles, the infinities and the negative zero are not modelled.
  \<open>NaN\<close> is kept because the code produces and tests it: \<^verbatim>\<open>!grossIncome\<close> is
  true for \<open>NaN\<close>, and \<^verbatim>\<open>income * undefined\<close> is \<open>NaN\<close>.
\<close>

datatype jsnum = NaN | Fin real

fun js_mul :: "jsnum \<Rightarrow> jsnum \<Rightarrow> jsnum" where
  "js_mul (Fin a) (Fin b) = Fin (a * b)"
| "js_mul _ _ = NaN"

fun js_gt :: "jsnum \<Rightarrow> jsnum \<Rightarrow> bool" where
  "js_gt (Fin a) (Fin b) = (a > b)"
| "js_gt _ _ = False"

fun js_le :: "jsnum \<Rightarrow> jsnum \<Rightarrow> bool" where
  "js_le (Fin a) (Fin b) = (a \<le> b)"
| "js_le _ _ = False"

fun js_lt :: "jsnum \<Rightarrow> jsnum \<Rightarrow> bool" where
  "js_lt (Fin a) (Fin b) = (a < b)"
| "js_lt _ _ = False"

text \<open>\<^verbatim>\<open>Math.abs\<close>.\<close>

fun js_abs :: "jsnum \<Rightarrow> jsnum" where
  "js_abs (Fin a) = Fin \<bar>a\<bar>"
| "js_abs NaN = NaN"

text \<open>Truthiness of a number: \<open>0\<close> and \<open>NaN\<close> are falsy.\<close>

fun truthy_num :: "jsnum \<Rightarrow> bool" where
  "truthy_num (Fin a) = (a \<noteq> 0)"
| "truthy_num NaN = False"

text \<open>
  \<^verbatim>\<open>a ?? b\<close> on a numeric property: \<open>None\<close> stands for a property that is absent,
  \<^verbatim>\<open>undefined\<close> or \<^verbatim>\<open>null\<close> (the three cases \<^verbatim>\<open>??\<close> does not tell apart).
\<close>

definition nullish_or :: "jsnum option \<Rightarrow> jsnum \<Rightarrow> jsnum" where
  "nullish_or a b = (case a of None \<Rightarrow> b | Some n \<Rightarrow> n)"

subsection \<open>Property reads on object literals\<close>

text \<open>
  The three lookup tables are plain object literals, so \<^verbatim>\<open>table[key]\<close> finds an own
  property first and then walks the prototype chain: a key that names a member of
  \<^verbatim>\<open>Object.prototype\<close> reads that member (a function, or the prototype object itself
  for \<^verbatim>\<open>__proto__\<close>), every other key reads \<^verbatim>\<open>undefined\<close>.
\<close>

datatype 'a jsprop = Val 'a | ProtoMember string | Undef

definition object_prototype_keys :: "string list" where
  "object_prototype_keys =
     [''constructor'', ''hasOwnProperty'', ''isPrototypeOf'', ''propertyIsEnumerable'',
      ''toLocaleString'', ''toString'', ''valueOf'', ''__proto__'',
      ''__defineGetter__'', ''__defineSetter__'', ''__lookupGetter__'', ''__lookupSetter__'']"

definition obj_get :: "(string \<times> 'a) list \<Rightarrow> string \<Rightarrow> 'a jsprop" where
  "obj_get obj key =
     (case map_of obj key of
        Some v \<Rightarrow> Val v
      | None \<Rightarrow> if key \<in> set object_prototype_keys then ProtoMember key else Undef)"

text \<open>
  \<^verbatim>\<open>x || d\<close> where \<open>x\<close> is a string-valued table read and \<open>d\<close> a string literal: the
  empty string and \<^verbatim>\<open>undefined\<close> are falsy, a function or an object is truthy.
\<close>

fun or_else :: "string jsprop \<Rightarrow> string \<Rightarrow> string jsprop" where
  "or_else (Val s) d = (if s = [] then Val d else Val s)"
| "or_else (ProtoMember k) d = ProtoMember k"
| "or_else Undef d = Val d"

section \<open>Input Normalizer: \<^verbatim>\<open>convertToYearlyIncome\<close>\<close>

text \<open>\<^verbatim>\<open>PERIOD_MULTIPLIERS\<close>; \<open>None\<close> is the \<^verbatim>\<open>null\<close> stored for \<^verbatim>\<open>hourly\<close>.\<close>

definition PERIOD_MULTIPLIERS :: "(string \<times> jsnum option) list" where
  "PERIOD_MULTIPLIERS =
     [(''yearly'', Some (Fin 1)),
      (''monthly'', Some (Fin 12)),
      (''weekly'', Some (Fin 52)),
      (''daily'', Some (Fin 260)),
      (''hourly'', None)]"

text \<open>
  \<^verbatim>\<open>income * multiplier\<close> converts the multiplier to a number: \<^verbatim>\<open>undefined\<close>, a
  function and the prototype object all convert to \<open>NaN\<close>.
\<close>

definition convertToYearlyIncome :: "jsnum \<Rightarrow> string \<Rightarrow> jsnum \<Rightarrow> jsnum" where
  "convertToYearlyIncome income period hoursPerWeek =
     (if \<not> truthy_num income \<or> js_le income (Fin 0) then Fin 0
      else case obj_get PERIOD_MULTIPLIERS period of
             Val None \<Rightarrow> js_mul (js_mul income hoursPerWeek) (Fin 52)
           | Val (Some multiplier) \<Rightarrow> js_mul income multiplier
           | ProtoMember k \<Rightarrow> NaN
           | Undef \<Rightarrow> NaN)"

section \<open>Result Shaper: \<^verbatim>\<open>useBox1Calculator\<close>\<close>

subsection \<open>Inputs and destructuring defaults\<close>

text \<open>
  The \<^verbatim>\<open>inputs\<close> object as the caller passes it. Every property has its documented
  type (number, string or boolean); \<open>None\<close> is a property that is absent or
  \<^verbatim>\<open>undefined\<close>, which is when a destructuring default applies. An income passed as
  a string (the form's empty value is \<^verbatim>\<open>''\<close>) is outside the documented type and is not
  modelled.
\<close>

record inputs =
  in_grossIncome :: "jsnum option"
  in_period :: "string option"
  in_hoursPerWeek :: "jsnum option"
  in_holidayAllowanceIncluded :: "bool option"
  in_older :: "bool option"
  in_ruling30Enabled :: "bool option"
  in_ruling30Category :: "string option"
  in_socialSecurity :: "bool option"

text \<open>The local bindings the destructuring pattern introduces.\<close>

record locals =
  grossIncome :: jsnum
  period :: string
  hoursPerWeek :: jsnum
  holidayAllowanceIncluded :: bool
  older :: bool
  ruling30Enabled :: bool
  ruling30Category :: string
  socialSecurity :: bool

definition dflt :: "'a option \<Rightarrow> 'a \<Rightarrow> 'a" where
  "dflt x d = (case x of None \<Rightarrow> d | Some v \<Rightarrow> v)"

definition empty_object :: inputs where
  "empty_object =
     \<lparr>in_grossIncome = None, in_period = None, in_hoursPerWeek = None,
      in_holidayAllowanceIncluded = None, in_older = None, in_ruling30Enabled = None,
      in_ruling30Category = None, in_socialSecurity = None\<rparr>"

text \<open>
  \<^verbatim>\<open>const { grossIncome = 0, period = 'yearly', ... } = inputs ?? {}\<close>; the argument
  \<open>None\<close> is an \<^verbatim>\<open>inputs\<close> that is \<^verbatim>\<open>null\<close> or \<^verbatim>\<open>undefined\<close>.
\<close>

definition destructure :: "inputs option \<Rightarrow> locals" where
  "destructure i =
     (let obj = (case i of None \<Rightarrow> empty_object | Some r \<Rightarrow> r) in
      \<lparr>grossIncome = dflt (in_grossIncome obj) (Fin 0),
       period = dflt (in_period obj) ''yearly'',
       hoursPerWeek = dflt (in_hoursPerWeek obj) (Fin 40),
       holidayAllowanceIncluded = dflt (in_holidayAllowanceIncluded obj) True,
       older = dflt (in_older obj) False,
       ruling30Enabled = dflt (in_ruling30Enabled obj) False,
       ruling30Category = dflt (in_ruling30Category obj) ''other'',
       socialSecurity = dflt (in_socialSecurity obj) True\<rparr>)"

subsection \<open>The call of the external calculator\<close>

definition PERIOD_TO_START_FROM :: "(string \<times> string) list" where
  "PERIOD_TO_START_FROM =
     [(''yearly'', ''Year''),
      (''monthly'', ''Month''),
      (''weekly'', ''Week''),
      (''daily'', ''Day''),
      (''hourly'', ''Hour'')]"

definition rulingChoiceMap :: "(string \<times> string) list" where
  "rulingChoiceMap =
     [(''researchWorker'', ''research''),
      (''youngProfessional'', ''young''),
      (''other'', ''normal'')]"

text \<open>\<^verbatim>\<open>PERIOD_TO_START_FROM[period] || 'Year'\<close>\<close>

definition startFrom_of :: "string \<Rightarrow> string jsprop" where
  "startFrom_of p = or_else (obj_get PERIOD_TO_START_FROM p) ''Year''"

text \<open>\<^verbatim>\<open>rulingChoiceMap[ruling30Category] || 'normal'\<close>\<close>

definition choice_of :: "string \<Rightarrow> string jsprop" where
  "choice_of c = or_else (obj_get rulingChoiceMap c) ''normal''"

text \<open>The four arguments of \<^verbatim>\<open>new SalaryPaycheck(...)\<close>.\<close>

record salary_input =
  si_income :: jsnum
  si_allowance :: bool
  si_socialSecurity :: bool
  si_older :: bool
  si_hours :: jsnum

record ruling_arg =
  checked :: bool
  choice :: "string jsprop"

record ctor_call =
  arg_salaryInput :: salary_input
  arg_startFrom :: "string jsprop"
  arg_year :: jsnum
  arg_ruling :: ruling_arg

text \<open>\<^verbatim>\<open>Number(grossIncome)\<close> is the identity on a number.\<close>

definition constructor_call :: "locals \<Rightarrow> jsnum \<Rightarrow> ctor_call" where
  "constructor_call l yr =
     \<lparr>arg_salaryInput =
        \<lparr>si_income = grossIncome l,
         si_allowance = holidayAllowanceIncluded l,
         si_socialSecurity = socialSecurity l,
         si_older = older l,
         si_hours = hoursPerWeek l\<rparr>,
      arg_startFrom = startFrom_of (period l),
      arg_year = yr,
      arg_ruling = \<lparr>checked = ruling30Enabled l, choice = choice_of (ruling30Category l)\<rparr>\<rparr>"

text \<open>
  The package \<^verbatim>\<open>dutch-tax-income-calculator\<close> is not part of the repository: it is a
  parameter of the model. A value it throws is \<^verbatim>\<open>null\<close>, \<^verbatim>\<open>undefined\<close>, an
  object with a string \<^verbatim>\<open>message\<close> property (every \<^verbatim>\<open>Error\<close> instance), or
  any other value, on which \<^verbatim>\<open>.message\<close> reads \<^verbatim>\<open>undefined\<close> (a thrown string or
  number, an object without that property). A \<^verbatim>\<open>message\<close> that is not a string is not
  modelled.

  The object the constructor returns is given by its property reads: a read of a named
  property throws (a getter), or yields a number, or yields nothing (\<open>None\<close>: absent,
  \<^verbatim>\<open>undefined\<close> or \<^verbatim>\<open>null\<close>).
\<close>

datatype thrown = ThrownNull | ThrownUndefined | ThrownError string | ThrownOther

type_synonym paycheck = "string \<Rightarrow> thrown + jsnum option"

type_synonym external = "ctor_call \<Rightarrow> thrown + paycheck"

text \<open>An object whose properties are plain data: no read throws.\<close>

definition data_object :: "(string \<Rightarrow> jsnum option) \<Rightarrow> paycheck" where
  "data_object props = (\<lambda>name. Inr (props name))"

subsection \<open>The details object\<close>

record tax_details =
  inputIncome :: jsnum
  inputPeriod :: string
  yearlyInputIncome :: jsnum
  grossYear :: jsnum
  grossMonth :: jsnum
  grossWeek :: jsnum
  grossDay :: jsnum
  grossHour :: jsnum
  grossAllowance :: jsnum
  taxableYear :: jsnum
  taxFree :: jsnum
  payrollTax :: jsnum
  socialTax :: jsnum
  generalCredit :: jsnum
  labourCredit :: jsnum
  incomeTax :: jsnum
  incomeTaxMonth :: jsnum
  netYear :: jsnum
  netMonth :: jsnum
  netWeek :: jsnum
  netDay :: jsnum
  netHour :: jsnum
  netAllowance :: jsnum

definition bindE :: "'e + 'a \<Rightarrow> ('a \<Rightarrow> 'e + 'b) \<Rightarrow> 'e + 'b" where
  "bindE r f = (case r of Inl e \<Rightarrow> Inl e | Inr v \<Rightarrow> f v)"

text \<open>\<^verbatim>\<open>paycheck.name ?? 0\<close>\<close>

definition read_or_zero :: "paycheck \<Rightarrow> string \<Rightarrow> thrown + jsnum" where
  "read_or_zero pc name = bindE (pc name) (\<lambda>v. Inr (nullish_or v (Fin 0)))"

text \<open>The object literal is evaluated property by property, in the order written.\<close>

definition extract_details :: "jsnum \<Rightarrow> string \<Rightarrow> jsnum \<Rightarrow> paycheck \<Rightarrow> thrown + tax_details" where
  "extract_details vIncome vPeriod vYearly pc =
     bindE (read_or_zero pc ''grossYear'') (\<lambda>vGrossYear.
     bindE (read_or_zero pc ''grossMonth'') (\<lambda>vGrossMonth.
     bindE (read_or_zero pc ''grossWeek'') (\<lambda>vGrossWeek.
     bindE (read_or_zero pc ''grossDay'') (\<lambda>vGrossDay.
     bindE (read_or_zero pc ''grossHour'') (\<lambda>vGrossHour.
     bindE (read_or_zero pc ''grossAllowance'') (\<lambda>vGrossAllowance.
     bindE (read_or_zero pc ''taxableYear'') (\<lambda>vTaxableYear.
     bindE (read_or_zero pc ''taxFree'') (\<lambda>vTaxFree.
     bindE (read_or_zero pc ''payrollTax'') (\<lambda>vPayrollTax.
     bindE (read_or_zero pc ''socialTax'') (\<lambda>vSocialTax.
     bindE (read_or_zero pc ''generalCredit'') (\<lambda>vGeneralCredit.
     bindE (read_or_zero pc ''labourCredit'') (\<lambda>vLabourCredit.
     bindE (read_or_zero pc ''incomeTax'') (\<lambda>vIncomeTax.
     bindE (read_or_zero pc ''incomeTaxMonth'') (\<lambda>vIncomeTaxMonth.
     bindE (read_or_zero pc ''netYear'') (\<lambda>vNetYear.
     bindE (read_or_zero pc ''netMonth'') (\<lambda>vNetMonth.
     bindE (read_or_zero pc ''netWeek'') (\<lambda>vNetWeek.
     bindE (read_or_zero pc ''netDay'') (\<lambda>vNetDay.
     bindE (read_or_zero pc ''netHour'') (\<lambda>vNetHour.
     bindE (read_or_zero pc ''netAllowance'') (\<lambda>vNetAllowance.
     Inr \<lparr>inputIncome = vIncome,
          inputPeriod = vPeriod,
          yearlyInputIncome = vYearly,
          grossYear = vGrossYear,
          grossMonth = vGrossMonth,
          grossWeek = vGrossWeek,
          grossDay = vGrossDay,
          grossHour = vGrossHour,
          grossAllowance = vGrossAllowance,
          taxableYear = vTaxableYear,
          taxFree = vTaxFree,
          payrollTax = vPayrollTax,
          socialTax = vSocialTax,
          generalCredit = vGeneralCredit,
          labourCredit = vLabourCredit,
          incomeTax = vIncomeTax,
          incomeTaxMonth = vIncomeTaxMonth,
          netYear = vNetYear,
          netMonth = vNetMonth,
          netWeek = vNetWeek,
          netDay = vNetDay,
          netHour = vNetHour,
          netAllowance = vNetAllowance\<rparr>))))))))))))))))))))"

subsection \<open>The breakdown and the summary\<close>

record row =
  description :: string
  amount :: jsnum

definition build_breakdown :: "tax_details \<Rightarrow> bool \<Rightarrow> row list" where
  "build_breakdown d vSocialSecurity =
     [\<lparr>description = ''Gross annual income'', amount = grossYear d\<rparr>]
     @ (if js_gt (grossAllowance d) (Fin 0)
        then [\<lparr>description = ''Holiday allowance (8%)'', amount = grossAllowance d\<rparr>]
        else [])
     @ (if js_gt (taxFree d) (Fin 0)
        then [\<lparr>description = ''30% ruling tax-free amount'', amount = taxFree d\<rparr>]
        else [])
     @ [\<lparr>description = ''Taxable income'', amount = taxableYear d\<rparr>,
        \<lparr>description = ''Payroll tax'', amount = payrollTax d\<rparr>]
     @ (if vSocialSecurity
        then [\<lparr>description = ''Social security contributions'', amount = socialTax d\<rparr>]
        else [])
     @ [\<lparr>description = ''General tax credit'', amount = generalCredit d\<rparr>,
        \<lparr>description = ''Labour tax credit'', amount = labourCredit d\<rparr>,
        \<lparr>description = ''Total income tax'', amount = incomeTax d\<rparr>,
        \<lparr>description = ''Net annual income'', amount = netYear d\<rparr>]"

text \<open>
  The summary object. \<open>details = None\<close> is \<^verbatim>\<open>details: null\<close>; \<open>error\<close> is what
  reading \<^verbatim>\<open>.error\<close> gives: \<open>None\<close> is \<^verbatim>\<open>undefined\<close>.
\<close>

record summary =
  taxableBase :: jsnum
  estimatedTax :: jsnum
  netIncome :: jsnum
  breakdown :: "row list"
  details :: "tax_details option"
  error :: "string option"

definition empty_summary :: summary where
  "empty_summary =
     \<lparr>taxableBase = Fin 0, estimatedTax = Fin 0, netIncome = Fin 0,
      breakdown = [], details = None, error = None\<rparr>"

subsection \<open>The hook\<close>

text \<open>
  What the hook does besides returning: the constructor calls it makes and the lines it
  logs. What leaves the hook as an exception: the \<^verbatim>\<open>TypeError\<close> of reading
  \<^verbatim>\<open>.message\<close> of \<^verbatim>\<open>null\<close> or \<^verbatim>\<open>undefined\<close> inside the catch block.
\<close>

datatype event = Construct ctor_call | ConsoleError thrown

datatype uncaught = TypeError

text \<open>The object the \<^verbatim>\<open>try\<close> block returns, with the breakdown built just before.\<close>

definition summary_of :: "tax_details \<Rightarrow> bool \<Rightarrow> summary" where
  "summary_of d vSocialSecurity =
     \<lparr>taxableBase = taxableYear d,
      estimatedTax = js_abs (incomeTax d),
      netIncome = netYear d,
      breakdown = build_breakdown d vSocialSecurity,
      details = Some d,
      error = None\<rparr>"

text \<open>The body of the \<^verbatim>\<open>try\<close> block.\<close>

definition try_block :: "external \<Rightarrow> locals \<Rightarrow> jsnum \<Rightarrow> event list \<times> (thrown + summary)" where
  "try_block ext l yr =
     (let call = constructor_call l yr in
      ([Construct call],
       bindE (ext call) (\<lambda>pc.
         let yearly = convertToYearlyIncome (grossIncome l) (period l) (hoursPerWeek l) in
         bindE (extract_details (grossIncome l) (period l) yearly pc) (\<lambda>d.
           Inr (summary_of d (socialSecurity l))))))"

text \<open>\<^verbatim>\<open>error.message\<close>\<close>

fun message_of :: "thrown \<Rightarrow> uncaught + string option" where
  "message_of ThrownNull = Inl TypeError"
| "message_of ThrownUndefined = Inl TypeError"
| "message_of (ThrownError m) = Inr (Some m)"
| "message_of ThrownOther = Inr None"

text \<open>The \<^verbatim>\<open>catch\<close> block: log, then build the result object.\<close>

definition catch_block :: "thrown \<Rightarrow> event list \<times> (uncaught + summary)" where
  "catch_block e =
     ([ConsoleError e], bindE (message_of e) (\<lambda>m. Inr (empty_summary\<lparr>error := m\<rparr>)))"

text \<open>The function given to \<^verbatim>\<open>useMemo\<close>.\<close>

definition memo_callback :: "external \<Rightarrow> locals \<Rightarrow> jsnum \<Rightarrow> event list \<times> (uncaught + summary)" where
  "memo_callback ext l yr =
     (if \<not> truthy_num (grossIncome l) \<or> js_le (grossIncome l) (Fin 0)
      then ([], Inr empty_summary)
      else case try_block ext l yr of
             (evs, Inr s) \<Rightarrow> (evs, Inr s)
           | (evs, Inl e) \<Rightarrow> (evs @ fst (catch_block e), snd (catch_block e)))"

text \<open>
  \<^verbatim>\<open>useBox1Calculator(inputs, year = 2025)\<close>. The dependency list of \<^verbatim>\<open>useMemo\<close>
  names every variable the callback reads, so the memoised value is the value of the
  callback at the current arguments; the events are those of a render that recomputes.
\<close>

definition useBox1Calculator ::
  "external \<Rightarrow> inputs option \<Rightarrow> jsnum option \<Rightarrow> event list \<times> (uncaught + summary)" where
  "useBox1Calculator ext i yr = memo_callback ext (destructure i) (dflt yr (Fin 2025))"

subsection \<open>Names used in the statements\<close>

text \<open>The twenty properties read off the paycheck, in the order the code reads them.\<close>

definition paycheck_fields :: "string list" where
  "paycheck_fields =
     [''grossYear'', ''grossMonth'', ''grossWeek'', ''grossDay'', ''grossHour'',
      ''grossAllowance'', ''taxableYear'', ''taxFree'', ''payrollTax'', ''socialTax'',
      ''generalCredit'', ''labourCredit'', ''incomeTax'', ''incomeTaxMonth'',
      ''netYear'', ''netMonth'', ''netWeek'', ''netDay'', ''netHour'', ''netAllowance'']"

text \<open>An external calculator that returns a given object, and one that throws a given value.\<close>

definition returning :: "paycheck \<Rightarrow> external" where
  "returning pc call = Inr pc"

definition throwing :: "thrown \<Rightarrow> external" where
  "throwing e call = Inl e"

text \<open>An object every property read of which throws a given value.\<close>

definition throwing_reads :: "thrown \<Rightarrow> paycheck" where
  "throwing_reads e name = Inl e"

text \<open>
  Sample values: the input of the example in the specification (income 60000, yearly,
  social security on, ruling off, everything else left to its default), a result object
  with five of the twenty properties, a result object whose only property is an
  \<open>incomeTax\<close> of \<open>NaN\<close>, and the details objects the hook builds from them.
\<close>

definition example_inputs :: inputs where
  "example_inputs =
     \<lparr>in_grossIncome = Some (Fin 60000), in_period = Some ''yearly'', in_hoursPerWeek = None,
      in_holidayAllowanceIncluded = None, in_older = None, in_ruling30Enabled = Some False,
      in_ruling30Category = None, in_socialSecurity = Some True\<rparr>"

definition example_props :: "string \<Rightarrow> jsnum option" where
  "example_props name =
     (if name = ''grossYear'' then Some (Fin 60000)
      else if name = ''grossAllowance'' then Some (Fin 4444)
      else if name = ''taxableYear'' then Some (Fin 55556)
      else if name = ''incomeTax'' then Some (Fin (- 11000))
      else if name = ''netYear'' then Some (Fin 49000)
      else None)"

definition nan_props :: "string \<Rightarrow> jsnum option" where
  "nan_props name = (if name = ''incomeTax'' then Some NaN else None)"

definition example_details :: tax_details where
  "example_details =
     \<lparr>inputIncome = Fin 60000, inputPeriod = ''yearly'', yearlyInputIncome = Fin 60000,
      grossYear = Fin 60000,
      grossMonth = Fin 0,
      grossWeek = Fin 0,
      grossDay = Fin 0,
      grossHour = Fin 0,
      grossAllowance = Fin 4444,
      taxableYear = Fin 55556,
      taxFree = Fin 0,
      payrollTax = Fin 0,
      socialTax = Fin 0,
      generalCredit = Fin 0,
      labourCredit = Fin 0,
      incomeTax = Fin (- 11000),
      incomeTaxMonth = Fin 0,
      netYear = Fin 49000,
      netMonth = Fin 0,
      netWeek = Fin 0,
      netDay = Fin 0,
      netHour = Fin 0,
      netAllowance = Fin 0\<rparr>"

definition zero_details :: tax_details where
  "zero_details =
     \<lparr>inputIncome = Fin 60000, inputPeriod = ''yearly'', yearlyInputIncome = Fin 60000,
      grossYear = Fin 0,
      grossMonth = Fin 0,
      grossWeek = Fin 0,
      grossDay = Fin 0,
      grossHour = Fin 0,
      grossAllowance = Fin 0,
      taxableYear = Fin 0,
      taxFree = Fin 0,
      payrollTax = Fin 0,
      socialTax = Fin 0,
      generalCredit = Fin 0,
      labourCredit = Fin 0,
      incomeTax = Fin 0,
      incomeTaxMonth = Fin 0,
      netYear = Fin 0,
      netMonth = Fin 0,
      netWeek = Fin 0,
      netDay = Fin 0,
      netHour = Fin 0,
      netAllowance = Fin 0\<rparr>"

definition nan_details :: tax_details where
  "nan_details = zero_details\<lparr>incomeTax := NaN\<rparr>"

section \<open>Properties of the Input Normalizer\<close>


lemma js_gt_zero_passes: "js_gt i (Fin 0) \<Longrightarrow> truthy_num i \<and> \<not> js_le i (Fin 0)"
  by (cases i) auto

text \<open>
  C3. For every income \<open>i > 0\<close> and every \<open>hoursPerWeek\<close> \<open>h\<close> the normalizer returns
  \<open>i * 1\<close> for yearly, \<open>i * 12\<close> for monthly, \<open>i * 52\<close> for weekly, \<open>i * 260\<close> for daily
  and \<open>i * h * 52\<close> for hourly; for an income that is falsy or not above zero it returns
  \<open>0\<close> whatever the period and the hours are.
\<close>

theorem convertToYearlyIncome_table:
  "(js_gt i (Fin 0) \<longrightarrow>
      convertToYearlyIncome i ''yearly'' h = js_mul i (Fin 1) \<and>
      convertToYearlyIncome i ''monthly'' h = js_mul i (Fin 12) \<and>
      convertToYearlyIncome i ''weekly'' h = js_mul i (Fin 52) \<and>
      convertToYearlyIncome i ''daily'' h = js_mul i (Fin 260) \<and>
      convertToYearlyIncome i ''hourly'' h = js_mul (js_mul i h) (Fin 52)) \<and>
   (\<not> truthy_num i \<or> js_le i (Fin 0) \<longrightarrow> convertToYearlyIncome i p h = Fin 0)"
proof (intro conjI impI)
  assume pos: "js_gt i (Fin 0)"
  then have pass: "\<not> (\<not> truthy_num i \<or> js_le i (Fin 0))"
    using js_gt_zero_passes by blast
  show "convertToYearlyIncome i ''yearly'' h = js_mul i (Fin 1)"
    using pass by (simp add: convertToYearlyIncome_def obj_get_def PERIOD_MULTIPLIERS_def)
  show "convertToYearlyIncome i ''monthly'' h = js_mul i (Fin 12)"
    using pass by (simp add: convertToYearlyIncome_def obj_get_def PERIOD_MULTIPLIERS_def)
  show "convertToYearlyIncome i ''weekly'' h = js_mul i (Fin 52)"
    using pass by (simp add: convertToYearlyIncome_def obj_get_def PERIOD_MULTIPLIERS_def)
  show "convertToYearlyIncome i ''daily'' h = js_mul i (Fin 260)"
    using pass by (simp add: convertToYearlyIncome_def obj_get_def PERIOD_MULTIPLIERS_def)
  show "convertToYearlyIncome i ''hourly'' h = js_mul (js_mul i h) (Fin 52)"
    using pass by (simp add: convertToYearlyIncome_def obj_get_def PERIOD_MULTIPLIERS_def)
next
  assume "\<not> truthy_num i \<or> js_le i (Fin 0)"
  then show "convertToYearlyIncome i p h = Fin 0"
    by (simp add: convertToYearlyIncome_def)
qed

theorem convertToYearlyIncome_table_witness:
  "convertToYearlyIncome (Fin 25) ''yearly'' (Fin 36) = Fin 25 \<and>
   convertToYearlyIncome (Fin 25) ''monthly'' (Fin 36) = Fin 300 \<and>
   convertToYearlyIncome (Fin 25) ''weekly'' (Fin 36) = Fin 1300 \<and>
   convertToYearlyIncome (Fin 25) ''daily'' (Fin 36) = Fin 6500 \<and>
   convertToYearlyIncome (Fin 25) ''hourly'' (Fin 36) = Fin 46800 \<and>
   convertToYearlyIncome NaN ''weekly'' (Fin 36) = Fin 0 \<and>
   convertToYearlyIncome (Fin (- 3)) ''hourly'' (Fin 36) = Fin 0"
  using convertToYearlyIncome_table [of "Fin 25" "Fin 36" "''yearly''"]
    convertToYearlyIncome_table [of NaN "Fin 36" "''weekly''"]
    convertToYearlyIncome_table [of "Fin (- 3)" "Fin 36" "''hourly''"]
  by simp

section \<open>Auxiliary facts about the hook\<close>

lemma bindE_simps [simp]:
  "bindE (Inl e) f = Inl e"
  "bindE (Inr v) f = f v"
  by (simp_all add: bindE_def)

lemma bindE_eq_Inr: "bindE r f = Inr y \<longleftrightarrow> (\<exists>v. r = Inr v \<and> f v = Inr y)"
  by (cases r) simp_all

lemma bindE_eq_Inl: "bindE r f = Inl e \<longleftrightarrow> r = Inl e \<or> (\<exists>v. r = Inr v \<and> f v = Inl e)"
  by (cases r) simp_all

lemma catch_block_details:
  "snd (catch_block e) = Inr s \<Longrightarrow> \<exists>m. s = empty_summary\<lparr>error := m\<rparr>"
  by (cases e) (auto simp: catch_block_def)

lemma try_block_events: "fst (try_block ext l yr) = [Construct (constructor_call l yr)]"
  by (simp add: try_block_def Let_def)

lemma try_block_Inr:
  "snd (try_block ext l yr) = Inr s \<Longrightarrow> \<exists>d. s = summary_of d (socialSecurity l)"
  by (auto simp: try_block_def Let_def bindE_eq_Inr)

lemma memo_callback_unfold:
  "memo_callback ext l yr =
     (if \<not> truthy_num (grossIncome l) \<or> js_le (grossIncome l) (Fin 0)
      then ([], Inr empty_summary)
      else case snd (try_block ext l yr) of
             Inr s \<Rightarrow> ([Construct (constructor_call l yr)], Inr s)
           | Inl e \<Rightarrow> ([Construct (constructor_call l yr), ConsoleError e], snd (catch_block e)))"
proof -
  obtain r where tb: "try_block ext l yr = ([Construct (constructor_call l yr)], r)"
    using try_block_events [of ext l yr] by (cases "try_block ext l yr") simp
  show ?thesis
    by (cases r) (simp_all add: memo_callback_def tb catch_block_def)
qed

lemma hook_returns:
  assumes "snd (useBox1Calculator ext i yr) = Inr s"
  shows "(\<exists>m. s = empty_summary\<lparr>error := m\<rparr>) \<or> (\<exists>d. s = summary_of d (socialSecurity (destructure i)))"
proof (cases "\<not> truthy_num (grossIncome (destructure i)) \<or> js_le (grossIncome (destructure i)) (Fin 0)")
  case True
  with assms have "s = empty_summary"
    by (simp add: useBox1Calculator_def memo_callback_unfold)
  then have "s = empty_summary\<lparr>error := None\<rparr>" by (simp add: empty_summary_def)
  then show ?thesis by blast
next
  case False
  show ?thesis
  proof (cases "snd (try_block ext (destructure i) (dflt yr (Fin 2025)))")
    case (Inl e)
    with False assms have "snd (catch_block e) = Inr s"
      by (simp add: useBox1Calculator_def memo_callback_unfold)
    then show ?thesis using catch_block_details by blast
  next
    case (Inr s')
    with False assms have "s' = s"
      by (simp add: useBox1Calculator_def memo_callback_unfold)
    with Inr show ?thesis using try_block_Inr by blast
  qed
qed

lemma js_gt_zero_passes_guard: "js_gt g (Fin 0) \<Longrightarrow> \<not> (\<not> truthy_num g \<or> js_le g (Fin 0))"
  by (cases g) auto

lemma build_breakdown_descriptions:
  "map description (build_breakdown d b) =
     [''Gross annual income'']
     @ (if js_gt (grossAllowance d) (Fin 0) then [''Holiday allowance (8%)''] else [])
     @ (if js_gt (taxFree d) (Fin 0) then [''30% ruling tax-free amount''] else [])
     @ [''Taxable income'', ''Payroll tax'']
     @ (if b then [''Social security contributions''] else [])
     @ [''General tax credit'', ''Labour tax credit'', ''Total income tax'', ''Net annual income'']"
  by (simp add: build_breakdown_def)

lemma build_breakdown_subseq:
  "subseq (map description (build_breakdown d b))
     [''Gross annual income'', ''Holiday allowance (8%)'', ''30% ruling tax-free amount'',
      ''Taxable income'', ''Payroll tax'', ''Social security contributions'',
      ''General tax credit'', ''Labour tax credit'', ''Total income tax'', ''Net annual income'']"
  unfolding build_breakdown_descriptions
  by simp

lemma build_breakdown_distinct: "distinct (map description (build_breakdown d b))"
  unfolding build_breakdown_descriptions by simp

lemma build_breakdown_holiday:
  "(''Holiday allowance (8%)'' \<in> set (map description (build_breakdown d b))) = js_gt (grossAllowance d) (Fin 0)"
  unfolding build_breakdown_descriptions by simp

lemma build_breakdown_ruling:
  "(''30% ruling tax-free amount'' \<in> set (map description (build_breakdown d b))) = js_gt (taxFree d) (Fin 0)"
  unfolding build_breakdown_descriptions by simp

lemma build_breakdown_social:
  "(''Social security contributions'' \<in> set (map description (build_breakdown d b))) = b"
  unfolding build_breakdown_descriptions by simp

lemma build_breakdown_length: "7 \<le> length (build_breakdown d b)"
  by (simp add: build_breakdown_def)

lemma build_breakdown_taxable:
  "filter (\<lambda>r. description r = ''Taxable income'') (build_breakdown d b) =
     [\<lparr>description = ''Taxable income'', amount = taxableYear d\<rparr>]"
  by (simp add: build_breakdown_def)

lemma build_breakdown_net:
  "filter (\<lambda>r. description r = ''Net annual income'') (build_breakdown d b) =
     [\<lparr>description = ''Net annual income'', amount = netYear d\<rparr>]"
  by (simp add: build_breakdown_def)

lemma build_breakdown_hd:
  "hd (build_breakdown d b) = \<lparr>description = ''Gross annual income'', amount = grossYear d\<rparr>"
  by (simp add: build_breakdown_def)

lemma build_breakdown_last:
  "last (build_breakdown d b) = \<lparr>description = ''Net annual income'', amount = netYear d\<rparr>"
  by (simp add: build_breakdown_def)

lemma extract_details_ok:
  assumes "\<forall>f\<in>set paycheck_fields. pc f = Inr (props f)"
  shows "extract_details a b c pc =
     Inr \<lparr>inputIncome = a, inputPeriod = b, yearlyInputIncome = c,
        grossYear = nullish_or (props ''grossYear'') (Fin 0),
        grossMonth = nullish_or (props ''grossMonth'') (Fin 0),
        grossWeek = nullish_or (props ''grossWeek'') (Fin 0),
        grossDay = nullish_or (props ''grossDay'') (Fin 0),
        grossHour = nullish_or (props ''grossHour'') (Fin 0),
        grossAllowance = nullish_or (props ''grossAllowance'') (Fin 0),
        taxableYear = nullish_or (props ''taxableYear'') (Fin 0),
        taxFree = nullish_or (props ''taxFree'') (Fin 0),
        payrollTax = nullish_or (props ''payrollTax'') (Fin 0),
        socialTax = nullish_or (props ''socialTax'') (Fin 0),
        generalCredit = nullish_or (props ''generalCredit'') (Fin 0),
        labourCredit = nullish_or (props ''labourCredit'') (Fin 0),
        incomeTax = nullish_or (props ''incomeTax'') (Fin 0),
        incomeTaxMonth = nullish_or (props ''incomeTaxMonth'') (Fin 0),
        netYear = nullish_or (props ''netYear'') (Fin 0),
        netMonth = nullish_or (props ''netMonth'') (Fin 0),
        netWeek = nullish_or (props ''netWeek'') (Fin 0),
        netDay = nullish_or (props ''netDay'') (Fin 0),
        netHour = nullish_or (props ''netHour'') (Fin 0),
        netAllowance = nullish_or (props ''netAllowance'') (Fin 0)\<rparr>"
  using assms by (simp add: paycheck_fields_def extract_details_def read_or_zero_def)

lemma read_or_zero_Inl: "read_or_zero pc f = Inl e \<longleftrightarrow> pc f = Inl e"
  by (cases "pc f") (simp_all add: read_or_zero_def)

lemma extract_details_Inl:
  "extract_details a b c pc = Inl e \<Longrightarrow> \<exists>f\<in>set paycheck_fields. pc f = Inl e"
  unfolding extract_details_def bindE_eq_Inl read_or_zero_Inl paycheck_fields_def
  by (elim disjE exE conjE) simp_all

lemma extract_details_first_read:
  "pc ''grossYear'' = Inl e \<Longrightarrow> extract_details a b c pc = Inl e"
  by (simp add: extract_details_def read_or_zero_def)

lemma read_or_zero_Inr: "read_or_zero pc f = Inr n \<Longrightarrow> \<exists>v. pc f = Inr v"
  by (cases "pc f") (simp_all add: read_or_zero_def)

lemma extract_details_Inr:
  "extract_details a b c pc = Inr d \<Longrightarrow> \<forall>f\<in>set paycheck_fields. \<exists>v. pc f = Inr v"
  unfolding extract_details_def bindE_eq_Inr paycheck_fields_def
  by (elim exE conjE) (simp add: read_or_zero_Inr)

lemma extract_details_raises:
  assumes "f \<in> set paycheck_fields" and "pc f = Inl e"
  shows "\<exists>e'. extract_details a b c pc = Inl e'"
proof (cases "extract_details a b c pc")
  case (Inl e')
  then show ?thesis by blast
next
  case (Inr d)
  from extract_details_Inr [OF Inr] assms show ?thesis by fastforce
qed

lemma hook_zero_income:
  "\<not> truthy_num (grossIncome (destructure i)) \<or> js_le (grossIncome (destructure i)) (Fin 0) \<Longrightarrow>
   useBox1Calculator ext i yr = ([], Inr empty_summary)"
  by (simp add: useBox1Calculator_def memo_callback_unfold)

lemma hook_try_raised:
  assumes "js_gt (grossIncome (destructure i)) (Fin 0)"
    and "snd (try_block ext (destructure i) (dflt yr (Fin 2025))) = Inl e"
  shows "useBox1Calculator ext i yr =
     ([Construct (constructor_call (destructure i) (dflt yr (Fin 2025))), ConsoleError e],
      snd (catch_block e))"
  using assms js_gt_zero_passes_guard [OF assms(1)]
  by (simp add: useBox1Calculator_def memo_callback_unfold)

lemma hook_try_returned:
  assumes "js_gt (grossIncome (destructure i)) (Fin 0)"
    and "snd (try_block ext (destructure i) (dflt yr (Fin 2025))) = Inr s"
  shows "useBox1Calculator ext i yr =
     ([Construct (constructor_call (destructure i) (dflt yr (Fin 2025)))], Inr s)"
  using assms js_gt_zero_passes_guard [OF assms(1)]
  by (simp add: useBox1Calculator_def memo_callback_unfold)

lemma try_block_raised:
  assumes "ext (constructor_call l yr) = Inl e \<or>
     (\<exists>pc. ext (constructor_call l yr) = Inr pc \<and>
        extract_details (grossIncome l) (period l)
          (convertToYearlyIncome (grossIncome l) (period l) (hoursPerWeek l)) pc = Inl e)"
  shows "snd (try_block ext l yr) = Inl e"
  using assms by (auto simp: try_block_def Let_def)

section \<open>Properties of the Result Shaper\<close>

text \<open>
  C2. For every input whose \<open>grossIncome\<close> (after the default \<open>0\<close> for a missing one) is
  falsy or not above zero, the hook returns the fixed empty summary (three zeros, empty
  breakdown, \<open>details\<close> null, no error) and makes no call of the external calculator:
  the list of events is empty, whatever the calculator is.
\<close>

theorem zero_income_short_circuit:
  "\<not> truthy_num (grossIncome (destructure i)) \<or> js_le (grossIncome (destructure i)) (Fin 0) \<Longrightarrow>
   useBox1Calculator ext i yr =
     ([], Inr \<lparr>taxableBase = Fin 0, estimatedTax = Fin 0, netIncome = Fin 0,
              breakdown = [], details = None, error = None\<rparr>)"
  using hook_zero_income [of i ext yr] by (simp add: empty_summary_def)

theorem zero_income_short_circuit_witness:
  "useBox1Calculator (returning (data_object example_props)) None None =
     ([], Inr \<lparr>taxableBase = Fin 0, estimatedTax = Fin 0, netIncome = Fin 0,
              breakdown = [], details = None, error = None\<rparr>) \<and>
   useBox1Calculator (returning (data_object example_props))
       (Some (example_inputs\<lparr>in_grossIncome := Some NaN\<rparr>)) None =
     ([], Inr \<lparr>taxableBase = Fin 0, estimatedTax = Fin 0, netIncome = Fin 0,
              breakdown = [], details = None, error = None\<rparr>) \<and>
   useBox1Calculator (returning (data_object example_props))
       (Some (example_inputs\<lparr>in_grossIncome := Some (Fin (- 100))\<rparr>)) None =
     ([], Inr \<lparr>taxableBase = Fin 0, estimatedTax = Fin 0, netIncome = Fin 0,
              breakdown = [], details = None, error = None\<rparr>)"
  using zero_income_short_circuit [of None "returning (data_object example_props)" None]
    zero_income_short_circuit [of "Some (example_inputs\<lparr>in_grossIncome := Some NaN\<rparr>)"
      "returning (data_object example_props)" None]
    zero_income_short_circuit [of "Some (example_inputs\<lparr>in_grossIncome := Some (Fin (- 100))\<rparr>)"
      "returning (data_object example_props)" None]
  by (simp add: destructure_def empty_object_def example_inputs_def dflt_def)

text \<open>
  What the catch block does with each kind of thrown value, for every input with
  \<open>grossIncome > 0\<close> and wherever in the try block the value is thrown (by the
  constructor, or by a property read of the object it returned). Every value but
  \<^verbatim>\<open>null\<close> and \<^verbatim>\<open>undefined\<close> is absorbed: the hook makes the one constructor call, logs
  the value and returns the empty summary with \<open>error\<close> set to the value's \<open>message\<close>.
\<close>

lemma thrown_value_absorbed:
  assumes "js_gt (grossIncome (destructure i)) (Fin 0)"
    and "ext (constructor_call (destructure i) (dflt yr (Fin 2025))) = Inl e \<or>
     (\<exists>pc. ext (constructor_call (destructure i) (dflt yr (Fin 2025))) = Inr pc \<and>
        extract_details (grossIncome (destructure i)) (period (destructure i))
          (convertToYearlyIncome (grossIncome (destructure i)) (period (destructure i))
             (hoursPerWeek (destructure i))) pc = Inl e)"
    and "e \<noteq> ThrownNull" and "e \<noteq> ThrownUndefined"
  shows "useBox1Calculator ext i yr =
     ([Construct (constructor_call (destructure i) (dflt yr (Fin 2025))), ConsoleError e],
      Inr \<lparr>taxableBase = Fin 0, estimatedTax = Fin 0, netIncome = Fin 0,
           breakdown = [], details = None,
           error = (case e of ThrownError m \<Rightarrow> Some m | _ \<Rightarrow> None)\<rparr>)"
proof -
  have "snd (try_block ext (destructure i) (dflt yr (Fin 2025))) = Inl e"
    using assms(2) by (rule try_block_raised [of ext "destructure i" "dflt yr (Fin 2025)"])
  from hook_try_raised [OF assms(1) this] assms(3,4) show ?thesis
    by (cases e) (simp_all add: catch_block_def empty_summary_def)
qed

text \<open>For an \<open>Error\<close> the \<open>error\<close> of the summary is its message string.\<close>

lemma thrown_error_absorbed:
  assumes "js_gt (grossIncome (destructure i)) (Fin 0)"
    and "ext (constructor_call (destructure i) (dflt yr (Fin 2025))) = Inl (ThrownError m) \<or>
     (\<exists>pc. ext (constructor_call (destructure i) (dflt yr (Fin 2025))) = Inr pc \<and>
        extract_details (grossIncome (destructure i)) (period (destructure i))
          (convertToYearlyIncome (grossIncome (destructure i)) (period (destructure i))
             (hoursPerWeek (destructure i))) pc = Inl (ThrownError m))"
  shows "useBox1Calculator ext i yr =
     ([Construct (constructor_call (destructure i) (dflt yr (Fin 2025))),
       ConsoleError (ThrownError m)],
      Inr \<lparr>taxableBase = Fin 0, estimatedTax = Fin 0, netIncome = Fin 0,
           breakdown = [], details = None, error = Some m\<rparr>)"
  using thrown_value_absorbed [of i ext yr "ThrownError m", OF assms] by simp

text \<open>
  A thrown \<^verbatim>\<open>null\<close> or \<^verbatim>\<open>undefined\<close> is caught and logged, and then
  \<^verbatim>\<open>error.message\<close> throws inside the catch block: a \<open>TypeError\<close> leaves the hook.
\<close>

lemma thrown_nullish_escapes:
  assumes "js_gt (grossIncome (destructure i)) (Fin 0)"
    and "ext (constructor_call (destructure i) (dflt yr (Fin 2025))) = Inl e \<or>
     (\<exists>pc. ext (constructor_call (destructure i) (dflt yr (Fin 2025))) = Inr pc \<and>
        extract_details (grossIncome (destructure i)) (period (destructure i))
          (convertToYearlyIncome (grossIncome (destructure i)) (period (destructure i))
             (hoursPerWeek (destructure i))) pc = Inl e)"
    and "e = ThrownNull \<or> e = ThrownUndefined"
  shows "useBox1Calculator ext i yr =
     ([Construct (constructor_call (destructure i) (dflt yr (Fin 2025))), ConsoleError e],
      Inl TypeError)"
proof -
  have "snd (try_block ext (destructure i) (dflt yr (Fin 2025))) = Inl e"
    using assms(2) by (rule try_block_raised [of ext "destructure i" "dflt yr (Fin 2025)"])
  from hook_try_raised [OF assms(1) this] assms(3) show ?thesis
    by (auto simp: catch_block_def)
qed

text \<open>
  C1. The claim is that, for every input with \<open>grossIncome > 0\<close>, whatever the
  constructor or a later property read throws, the hook returns the empty summary with
  an error message and no exception reaches the caller. The catch block reads
  \<^verbatim>\<open>error.message\<close> without a guard, so the code does not do this when the thrown value
  is \<^verbatim>\<open>null\<close> or \<^verbatim>\<open>undefined\<close>: on the example input, with a constructor that throws
  \<^verbatim>\<open>null\<close>, with one that throws \<^verbatim>\<open>undefined\<close>, and with a returned object whose
  property read throws \<^verbatim>\<open>null\<close>, the hook does not return a summary; a \<open>TypeError\<close>
  leaves it.
\<close>

theorem thrown_null_escapes:
  "snd (useBox1Calculator (throwing ThrownNull) (Some example_inputs) None) = Inl TypeError \<and>
   snd (useBox1Calculator (throwing ThrownUndefined) (Some example_inputs) None) = Inl TypeError \<and>
   snd (useBox1Calculator (returning (throwing_reads ThrownNull)) (Some example_inputs) None) =
     Inl TypeError"
  by (simp add: useBox1Calculator_def memo_callback_unfold try_block_def catch_block_def
      destructure_def example_inputs_def dflt_def throwing_def returning_def throwing_reads_def
      extract_details_first_read)

lemma example_positive: "js_gt (grossIncome (destructure (Some example_inputs))) (Fin 0)"
  by (simp add: destructure_def example_inputs_def dflt_def)

lemma example_reads: "\<forall>f\<in>set paycheck_fields. data_object props f = Inr (props f)"
  by (simp add: data_object_def)

lemma example_yearly:
  "convertToYearlyIncome (Fin 60000) ''yearly'' h = Fin 60000"
  by (simp add: convertToYearlyIncome_def obj_get_def PERIOD_MULTIPLIERS_def)

lemma example_extract:
  "extract_details (Fin 60000) ''yearly'' (Fin 60000) (data_object example_props) = Inr example_details"
  unfolding extract_details_ok [OF example_reads]
  by (simp add: example_details_def example_props_def nullish_or_def)

lemma example_run:
  "snd (useBox1Calculator (returning (data_object example_props)) (Some example_inputs) None) =
     Inr (summary_of example_details True)"
proof -
  have "snd (try_block (returning (data_object example_props)) (destructure (Some example_inputs))
          (dflt None (Fin 2025))) = Inr (summary_of example_details True)"
    by (simp add: try_block_def Let_def returning_def destructure_def example_inputs_def dflt_def
        example_yearly example_extract)
  from hook_try_returned [OF example_positive this] show ?thesis by simp
qed

lemma example_details_sel: "details (summary_of example_details True) = Some example_details"
  by (simp add: summary_of_def)

lemma hook_success:
  assumes "snd (useBox1Calculator ext i yr) = Inr s" and "details s = Some d"
  shows "s = summary_of d (socialSecurity (destructure i))"
  using hook_returns [OF assms(1)] assms(2)
  by (auto simp: empty_summary_def summary_of_def)

lemma hook_failure:
  assumes "snd (useBox1Calculator ext i yr) = Inr s" and "details s = None"
  shows "\<exists>m. s = empty_summary\<lparr>error := m\<rparr>"
  using hook_returns [OF assms(1)] assms(2)
  by (auto simp: summary_of_def)

text \<open>
  C4. In every summary the hook computes successfully (\<open>details\<close> is not null) the row
  labels form a duplicate-free subsequence of one fixed list of ten labels, so any two
  rows always stand in the same order; the holiday allowance row is present iff
  \<open>grossAllowance > 0\<close>, the 30% ruling row iff \<open>taxFree > 0\<close>, and the social security
  row iff the \<open>socialSecurity\<close> flag (\<open>true\<close> when the input leaves it out) is true.
\<close>

theorem breakdown_rows_fixed_order:
  assumes "snd (useBox1Calculator ext i yr) = Inr s" and "details s = Some d"
  shows "subseq (map description (breakdown s))
       [''Gross annual income'', ''Holiday allowance (8%)'', ''30% ruling tax-free amount'',
        ''Taxable income'', ''Payroll tax'', ''Social security contributions'',
        ''General tax credit'', ''Labour tax credit'', ''Total income tax'', ''Net annual income''] \<and>
     distinct (map description (breakdown s)) \<and>
     (''Holiday allowance (8%)'' \<in> set (map description (breakdown s))) =
        js_gt (grossAllowance d) (Fin 0) \<and>
     (''30% ruling tax-free amount'' \<in> set (map description (breakdown s))) =
        js_gt (taxFree d) (Fin 0) \<and>
     (''Social security contributions'' \<in> set (map description (breakdown s))) =
        socialSecurity (destructure i)"
proof -
  have s: "breakdown s = build_breakdown d (socialSecurity (destructure i))"
    using hook_success [OF assms] by (simp add: summary_of_def)
  show ?thesis
    unfolding s
    using build_breakdown_subseq build_breakdown_distinct build_breakdown_holiday
      build_breakdown_ruling build_breakdown_social
    by blast
qed

theorem breakdown_rows_fixed_order_witness:
  "subseq (map description (breakdown (summary_of example_details True)))
       [''Gross annual income'', ''Holiday allowance (8%)'', ''30% ruling tax-free amount'',
        ''Taxable income'', ''Payroll tax'', ''Social security contributions'',
        ''General tax credit'', ''Labour tax credit'', ''Total income tax'', ''Net annual income''] \<and>
   distinct (map description (breakdown (summary_of example_details True))) \<and>
   ''Holiday allowance (8%)'' \<in> set (map description (breakdown (summary_of example_details True))) \<and>
   ''30% ruling tax-free amount'' \<notin> set (map description (breakdown (summary_of example_details True))) \<and>
   ''Social security contributions'' \<in> set (map description (breakdown (summary_of example_details True)))"
  using breakdown_rows_fixed_order [OF example_run example_details_sel]
  by (simp add: example_details_def destructure_def example_inputs_def dflt_def)

lemma build_breakdown_not_Nil: "build_breakdown d b \<noteq> []"
  by (simp add: build_breakdown_def)

lemma fields_read_summary:
  assumes "js_gt (grossIncome (destructure i)) (Fin 0)"
    and "ext (constructor_call (destructure i) (dflt yr (Fin 2025))) = Inr pc"
    and "\<forall>f\<in>set paycheck_fields. pc f = Inr (props f)"
  shows "\<exists>s d. snd (useBox1Calculator ext i yr) = Inr s \<and> details s = Some d \<and> error s = None \<and>
       grossYear d = (case props ''grossYear'' of None \<Rightarrow> Fin 0 | Some n \<Rightarrow> n) \<and>
       grossMonth d = (case props ''grossMonth'' of None \<Rightarrow> Fin 0 | Some n \<Rightarrow> n) \<and>
       grossWeek d = (case props ''grossWeek'' of None \<Rightarrow> Fin 0 | Some n \<Rightarrow> n) \<and>
       grossDay d = (case props ''grossDay'' of None \<Rightarrow> Fin 0 | Some n \<Rightarrow> n) \<and>
       grossHour d = (case props ''grossHour'' of None \<Rightarrow> Fin 0 | Some n \<Rightarrow> n) \<and>
       grossAllowance d = (case props ''grossAllowance'' of None \<Rightarrow> Fin 0 | Some n \<Rightarrow> n) \<and>
       taxableYear d = (case props ''taxableYear'' of None \<Rightarrow> Fin 0 | Some n \<Rightarrow> n) \<and>
       taxFree d = (case props ''taxFree'' of None \<Rightarrow> Fin 0 | Some n \<Rightarrow> n) \<and>
       payrollTax d = (case props ''payrollTax'' of None \<Rightarrow> Fin 0 | Some n \<Rightarrow> n) \<and>
       socialTax d = (case props ''socialTax'' of None \<Rightarrow> Fin 0 | Some n \<Rightarrow> n) \<and>
       generalCredit d = (case props ''generalCredit'' of None \<Rightarrow> Fin 0 | Some n \<Rightarrow> n) \<and>
       labourCredit d = (case props ''labourCredit'' of None \<Rightarrow> Fin 0 | Some n \<Rightarrow> n) \<and>
       incomeTax d = (case props ''incomeTax'' of None \<Rightarrow> Fin 0 | Some n \<Rightarrow> n) \<and>
       incomeTaxMonth d = (case props ''incomeTaxMonth'' of None \<Rightarrow> Fin 0 | Some n \<Rightarrow> n) \<and>
       netYear d = (case props ''netYear'' of None \<Rightarrow> Fin 0 | Some n \<Rightarrow> n) \<and>
       netMonth d = (case props ''netMonth'' of None \<Rightarrow> Fin 0 | Some n \<Rightarrow> n) \<and>
       netWeek d = (case props ''netWeek'' of None \<Rightarrow> Fin 0 | Some n \<Rightarrow> n) \<and>
       netDay d = (case props ''netDay'' of None \<Rightarrow> Fin 0 | Some n \<Rightarrow> n) \<and>
       netHour d = (case props ''netHour'' of None \<Rightarrow> Fin 0 | Some n \<Rightarrow> n) \<and>
       netAllowance d = (case props ''netAllowance'' of None \<Rightarrow> Fin 0 | Some n \<Rightarrow> n) \<and>
       inputIncome d = grossIncome (destructure i) \<and>
       inputPeriod d = period (destructure i) \<and>
       yearlyInputIncome d =
         convertToYearlyIncome (grossIncome (destructure i)) (period (destructure i))
           (hoursPerWeek (destructure i)) \<and>
       taxableBase s = taxableYear d \<and>
       estimatedTax s = js_abs (incomeTax d) \<and>
       netIncome s = netYear d \<and>
       breakdown s = build_breakdown d (socialSecurity (destructure i)) \<and>
       breakdown s \<noteq> []"
proof -
  let ?l = "destructure i"
  let ?y = "convertToYearlyIncome (grossIncome ?l) (period ?l) (hoursPerWeek ?l)"
  let ?d = "\<lparr>inputIncome = grossIncome ?l, inputPeriod = period ?l, yearlyInputIncome = ?y,
        grossYear = nullish_or (props ''grossYear'') (Fin 0),
        grossMonth = nullish_or (props ''grossMonth'') (Fin 0),
        grossWeek = nullish_or (props ''grossWeek'') (Fin 0),
        grossDay = nullish_or (props ''grossDay'') (Fin 0),
        grossHour = nullish_or (props ''grossHour'') (Fin 0),
        grossAllowance = nullish_or (props ''grossAllowance'') (Fin 0),
        taxableYear = nullish_or (props ''taxableYear'') (Fin 0),
        taxFree = nullish_or (props ''taxFree'') (Fin 0),
        payrollTax = nullish_or (props ''payrollTax'') (Fin 0),
        socialTax = nullish_or (props ''socialTax'') (Fin 0),
        generalCredit = nullish_or (props ''generalCredit'') (Fin 0),
        labourCredit = nullish_or (props ''labourCredit'') (Fin 0),
        incomeTax = nullish_or (props ''incomeTax'') (Fin 0),
        incomeTaxMonth = nullish_or (props ''incomeTaxMonth'') (Fin 0),
        netYear = nullish_or (props ''netYear'') (Fin 0),
        netMonth = nullish_or (props ''netMonth'') (Fin 0),
        netWeek = nullish_or (props ''netWeek'') (Fin 0),
        netDay = nullish_or (props ''netDay'') (Fin 0),
        netHour = nullish_or (props ''netHour'') (Fin 0),
        netAllowance = nullish_or (props ''netAllowance'') (Fin 0)\<rparr>"
  have d: "extract_details (grossIncome ?l) (period ?l) ?y pc = Inr ?d"
    by (rule extract_details_ok [OF assms(3)])
  have "snd (try_block ext ?l (dflt yr (Fin 2025))) = Inr (summary_of ?d (socialSecurity ?l))"
    by (simp only: try_block_def Let_def assms(2) d bindE_simps snd_conv)
  from hook_try_returned [OF assms(1) this]
  have run: "snd (useBox1Calculator ext i yr) = Inr (summary_of ?d (socialSecurity ?l))"
    by simp
  show ?thesis
    apply (rule exI [of _ "summary_of ?d (socialSecurity ?l)"])
    apply (rule exI [of _ ?d])
    apply (simp only: run)
    apply (simp add: summary_of_def nullish_or_def build_breakdown_not_Nil)
    done
qed

text \<open>
  C5. For every input with \<open>grossIncome > 0\<close> and every object the constructor returns
  whose twenty property reads do not throw: the hook returns a summary with a non-null
  \<open>details\<close>; each of the twenty details is the value read, or \<open>0\<close> when that property
  is absent, independently of the other nineteen; the three input details, the top-level
  figures and the (non-empty) breakdown are populated from them.
\<close>

theorem missing_fields_default_to_zero:
  assumes "js_gt (grossIncome (destructure i)) (Fin 0)"
    and "ext (constructor_call (destructure i) (dflt yr (Fin 2025))) = Inr pc"
    and "\<forall>f\<in>set paycheck_fields. pc f = Inr (props f)"
  shows "\<exists>s d. snd (useBox1Calculator ext i yr) = Inr s \<and> details s = Some d \<and> error s = None \<and>
       grossYear d = (case props ''grossYear'' of None \<Rightarrow> Fin 0 | Some n \<Rightarrow> n) \<and>
       grossMonth d = (case props ''grossMonth'' of None \<Rightarrow> Fin 0 | Some n \<Rightarrow> n) \<and>
       grossWeek d = (case props ''grossWeek'' of None \<Rightarrow> Fin 0 | Some n \<Rightarrow> n) \<and>
       grossDay d = (case props ''grossDay'' of None \<Rightarrow> Fin 0 | Some n \<Rightarrow> n) \<and>
       grossHour d = (case props ''grossHour'' of None \<Rightarrow> Fin 0 | Some n \<Rightarrow> n) \<and>
       grossAllowance d = (case props ''grossAllowance'' of None \<Rightarrow> Fin 0 | Some n \<Rightarrow> n) \<and>
       taxableYear d = (case props ''taxableYear'' of None \<Rightarrow> Fin 0 | Some n \<Rightarrow> n) \<and>
       taxFree d = (case props ''taxFree'' of None \<Rightarrow> Fin 0 | Some n \<Rightarrow> n) \<and>
       payrollTax d = (case props ''payrollTax'' of None \<Rightarrow> Fin 0 | Some n \<Rightarrow> n) \<and>
       socialTax d = (case props ''socialTax'' of None \<Rightarrow> Fin 0 | Some n \<Rightarrow> n) \<and>
       generalCredit d = (case props ''generalCredit'' of None \<Rightarrow> Fin 0 | Some n \<Rightarrow> n) \<and>
       labourCredit d = (case props ''labourCredit'' of None \<Rightarrow> Fin 0 | Some n \<Rightarrow> n) \<and>
       incomeTax d = (case props ''incomeTax'' of None \<Rightarrow> Fin 0 | Some n \<Rightarrow> n) \<and>
       incomeTaxMonth d = (case props ''incomeTaxMonth'' of None \<Rightarrow> Fin 0 | Some n \<Rightarrow> n) \<and>
       netYear d = (case props ''netYear'' of None \<Rightarrow> Fin 0 | Some n \<Rightarrow> n) \<and>
       netMonth d = (case props ''netMonth'' of None \<Rightarrow> Fin 0 | Some n \<Rightarrow> n) \<and>
       netWeek d = (case props ''netWeek'' of None \<Rightarrow> Fin 0 | Some n \<Rightarrow> n) \<and>
       netDay d = (case props ''netDay'' of None \<Rightarrow> Fin 0 | Some n \<Rightarrow> n) \<and>
       netHour d = (case props ''netHour'' of None \<Rightarrow> Fin 0 | Some n \<Rightarrow> n) \<and>
       netAllowance d = (case props ''netAllowance'' of None \<Rightarrow> Fin 0 | Some n \<Rightarrow> n) \<and>
       inputIncome d = grossIncome (destructure i) \<and>
       inputPeriod d = period (destructure i) \<and>
       yearlyInputIncome d =
         convertToYearlyIncome (grossIncome (destructure i)) (period (destructure i))
           (hoursPerWeek (destructure i)) \<and>
       taxableBase s = taxableYear d \<and>
       estimatedTax s = js_abs (incomeTax d) \<and>
       netIncome s = netYear d \<and>
       breakdown s = build_breakdown d (socialSecurity (destructure i)) \<and>
       breakdown s \<noteq> []"
  using assms by (rule fields_read_summary)

theorem missing_fields_default_to_zero_witness:
  "\<exists>s d. snd (useBox1Calculator (returning (data_object example_props)) (Some example_inputs) None) = Inr s \<and>
     details s = Some d \<and> grossYear d = Fin 60000 \<and> grossMonth d = Fin 0 \<and>
     payrollTax d = Fin 0 \<and> netYear d = Fin 49000 \<and> netAllowance d = Fin 0 \<and>
     taxableBase s = Fin 55556 \<and> netIncome s = Fin 49000 \<and> breakdown s \<noteq> []"
proof -
  have call: "returning (data_object example_props)
      (constructor_call (destructure (Some example_inputs)) (dflt None (Fin 2025))) =
      Inr (data_object example_props)"
    by (simp add: returning_def)
  from missing_fields_default_to_zero [of "Some example_inputs" "returning (data_object example_props)"
      None "data_object example_props" example_props, OF example_positive call example_reads]
  obtain s d where
    "snd (useBox1Calculator (returning (data_object example_props)) (Some example_inputs) None) = Inr s"
    "details s = Some d" "grossYear d = Fin 60000" "grossMonth d = Fin 0"
    "payrollTax d = Fin 0" "netYear d = Fin 49000" "netAllowance d = Fin 0"
    "taxableBase s = taxableYear d" "taxableYear d = Fin 55556" "netIncome s = netYear d"
    "breakdown s \<noteq> []"
    by (auto simp: example_props_def)
  then show ?thesis by auto
qed

lemma startFrom_of_mapped:
  "startFrom_of ''yearly'' = Val ''Year''"
  "startFrom_of ''monthly'' = Val ''Month''"
  "startFrom_of ''weekly'' = Val ''Week''"
  "startFrom_of ''daily'' = Val ''Day''"
  "startFrom_of ''hourly'' = Val ''Hour''"
  by (simp_all add: startFrom_of_def obj_get_def PERIOD_TO_START_FROM_def)

lemma choice_of_mapped:
  "choice_of ''researchWorker'' = Val ''research''"
  "choice_of ''youngProfessional'' = Val ''young''"
  "choice_of ''other'' = Val ''normal''"
  by (simp_all add: choice_of_def obj_get_def rulingChoiceMap_def)

lemma startFrom_of_fallback:
  assumes "p \<notin> {''yearly'', ''monthly'', ''weekly'', ''daily'', ''hourly''}"
    and "p \<notin> set object_prototype_keys"
  shows "startFrom_of p = Val ''Year''"
  using assms by (simp add: startFrom_of_def obj_get_def PERIOD_TO_START_FROM_def)

lemma choice_of_fallback:
  assumes "c \<notin> {''researchWorker'', ''youngProfessional'', ''other''}"
    and "c \<notin> set object_prototype_keys"
  shows "choice_of c = Val ''normal''"
  using assms by (simp add: choice_of_def obj_get_def rulingChoiceMap_def)

text \<open>
  C6. The claim is that a period outside the five table keys is translated to \<open>Year\<close>
  and a ruling category outside the three table keys to \<open>normal\<close>. The code reads the
  tables with \<^verbatim>\<open>table[key] || fallback\<close>, and for a key that names a member of
  \<^verbatim>\<open>Object.prototype\<close> the read is that member, which is truthy: for the period
  \<^verbatim>\<open>toString\<close> the selector passed to the constructor is a function, not \<open>Year\<close>;
  likewise for the category \<^verbatim>\<open>constructor\<close>. (For every other unmapped key the
  fallback does apply: \<open>startFrom_of_fallback\<close>, \<open>choice_of_fallback\<close>.)
\<close>

theorem inherited_key_defeats_fallback:
  "''toString'' \<notin> {''yearly'', ''monthly'', ''weekly'', ''daily'', ''hourly''} \<and>
   startFrom_of ''toString'' = ProtoMember ''toString'' \<and>
   startFrom_of ''toString'' \<noteq> Val ''Year'' \<and>
   ''constructor'' \<notin> {''researchWorker'', ''youngProfessional'', ''other''} \<and>
   choice_of ''constructor'' = ProtoMember ''constructor'' \<and>
   choice_of ''constructor'' \<noteq> Val ''normal'' \<and>
   arg_startFrom (constructor_call
       (destructure (Some (example_inputs\<lparr>in_period := Some ''toString''\<rparr>))) (Fin 2025)) =
     ProtoMember ''toString''"
  by (simp add: startFrom_of_def choice_of_def obj_get_def PERIOD_TO_START_FROM_def
      rulingChoiceMap_def object_prototype_keys_def constructor_call_def destructure_def
      example_inputs_def dflt_def)

text \<open>
  The first and the last row. For the example input the hook asks the calculator for a
  pay check that starts from a yearly income of 60000; in every successfully computed
  summary the first row is \<open>Gross annual income\<close> with the \<open>grossYear\<close> detail and the last
  row is \<open>Net annual income\<close> with the \<open>netYear\<close> detail. Both details are what the
  calculator reports (\<open>fields_read_summary\<close>); its code is outside the repository.
\<close>

lemma example_call:
  "constructor_call (destructure (Some example_inputs)) (dflt None (Fin 2025)) =
     \<lparr>arg_salaryInput =
        \<lparr>si_income = Fin 60000, si_allowance = True, si_socialSecurity = True,
         si_older = False, si_hours = Fin 40\<rparr>,
      arg_startFrom = Val ''Year'',
      arg_year = Fin 2025,
      arg_ruling = \<lparr>checked = False, choice = Val ''normal''\<rparr>\<rparr>"
  by (simp add: constructor_call_def destructure_def example_inputs_def dflt_def
      startFrom_of_mapped choice_of_mapped)

lemma first_and_last_row:
  assumes "snd (useBox1Calculator ext i yr) = Inr s" and "details s = Some d"
  shows "breakdown s \<noteq> [] \<and>
     hd (breakdown s) = \<lparr>description = ''Gross annual income'', amount = grossYear d\<rparr> \<and>
     last (breakdown s) = \<lparr>description = ''Net annual income'', amount = netYear d\<rparr>"
  using hook_success [OF assms]
  by (simp add: summary_of_def build_breakdown_not_Nil build_breakdown_hd build_breakdown_last)

lemma js_abs_not_negative: "\<not> js_lt (js_abs x) (Fin 0)"
  by (cases x) simp_all

lemma js_le_zero_abs: "js_le (Fin 0) (js_abs x) = (x \<noteq> NaN)"
  by (cases x) simp_all

text \<open>
  C8, as amended. In every summary the hook returns: with a non-null \<open>details\<close>,
  \<open>estimatedTax\<close> is \<^verbatim>\<open>Math.abs\<close> of the \<open>incomeTax\<close> detail, and with a null \<open>details\<close>
  (zero income, absorbed error) it is \<open>0\<close>. It is never below zero, and it is at least
  zero exactly when the summary does not carry an \<open>incomeTax\<close> detail of \<open>NaN\<close>; with such
  a detail it is \<open>NaN\<close>.
\<close>

theorem estimatedTax_never_negative:
  assumes "snd (useBox1Calculator ext i yr) = Inr s"
  shows "\<not> js_lt (estimatedTax s) (Fin 0) \<and>
     (case details s of
        Some d \<Rightarrow> estimatedTax s = js_abs (incomeTax d) \<and>
                  (incomeTax d \<noteq> NaN \<longrightarrow> js_le (Fin 0) (estimatedTax s))
      | None \<Rightarrow> estimatedTax s = Fin 0) \<and>
     js_le (Fin 0) (estimatedTax s) = (\<forall>d. details s = Some d \<longrightarrow> incomeTax d \<noteq> NaN) \<and>
     (estimatedTax s = NaN) = (\<exists>d. details s = Some d \<and> incomeTax d = NaN)"
proof (cases "details s")
  case None
  from hook_failure [OF assms None] show ?thesis
    using None by (auto simp: empty_summary_def)
next
  case (Some d)
  from hook_success [OF assms Some] have e: "estimatedTax s = js_abs (incomeTax d)"
    by (simp add: summary_of_def)
  have n: "(js_abs (incomeTax d) = NaN) = (incomeTax d = NaN)"
    by (cases "incomeTax d") simp_all
  show ?thesis
    using Some by (simp add: e n js_abs_not_negative js_le_zero_abs)
qed

theorem estimatedTax_never_negative_witness:
  "\<not> js_lt (estimatedTax (summary_of example_details True)) (Fin 0) \<and>
   estimatedTax (summary_of example_details True) = Fin 11000 \<and>
   incomeTax example_details = Fin (- 11000) \<and>
   js_le (Fin 0) (estimatedTax (summary_of example_details True))"
  using estimatedTax_never_negative [OF example_run]
  by (simp add: summary_of_def example_details_def)

lemma nan_extract:
  "extract_details (Fin 60000) ''yearly'' (Fin 60000) (data_object nan_props) = Inr nan_details"
  unfolding extract_details_ok [OF example_reads]
  by (simp add: nan_details_def zero_details_def nan_props_def nullish_or_def)

lemma nan_run:
  "snd (useBox1Calculator (returning (data_object nan_props)) (Some example_inputs) None) =
     Inr (summary_of nan_details True)"
proof -
  have "snd (try_block (returning (data_object nan_props)) (destructure (Some example_inputs))
          (dflt None (Fin 2025))) = Inr (summary_of nan_details True)"
    by (simp add: try_block_def Let_def returning_def destructure_def example_inputs_def dflt_def
        example_yearly nan_extract)
  from hook_try_returned [OF example_positive this] show ?thesis by simp
qed

text \<open>
  When the calculator reports an \<open>incomeTax\<close> of \<open>NaN\<close>, the hook returns a summary whose
  \<open>estimatedTax\<close> is \<open>NaN\<close>, and \<open>0 \<le> NaN\<close> is false.
\<close>

theorem estimatedTax_nan_counterexample:
  "snd (useBox1Calculator (returning (data_object nan_props)) (Some example_inputs) None) =
     Inr (summary_of nan_details True) \<and>
   estimatedTax (summary_of nan_details True) = NaN \<and>
   \<not> js_le (Fin 0) (estimatedTax (summary_of nan_details True))"
  using nan_run by (simp add: summary_of_def nan_details_def)

lemma hook_details_None_iff:
  assumes "snd (useBox1Calculator ext i yr) = Inr s"
  shows "(details s = None) =
     (\<not> truthy_num (grossIncome (destructure i)) \<or> js_le (grossIncome (destructure i)) (Fin 0) \<or>
      (\<exists>e. snd (try_block ext (destructure i) (dflt yr (Fin 2025))) = Inl e))"
proof (cases "\<not> truthy_num (grossIncome (destructure i)) \<or> js_le (grossIncome (destructure i)) (Fin 0)")
  case True
  with assms have "s = empty_summary"
    by (simp add: useBox1Calculator_def memo_callback_unfold)
  with True show ?thesis by (auto simp: empty_summary_def)
next
  case False
  show ?thesis
  proof (cases "snd (try_block ext (destructure i) (dflt yr (Fin 2025)))")
    case (Inl e)
    with False assms have "snd (catch_block e) = Inr s"
      by (simp add: useBox1Calculator_def memo_callback_unfold)
    then have "details s = None"
      using catch_block_details by (fastforce simp: empty_summary_def)
    with Inl show ?thesis by simp
  next
    case (Inr s')
    with False assms have "s' = s"
      by (simp add: useBox1Calculator_def memo_callback_unfold)
    with Inr try_block_Inr have "details s \<noteq> None"
      by (fastforce simp: summary_of_def)
    with False Inr show ?thesis by simp
  qed
qed

text \<open>
  C9. In every summary the hook returns, \<open>details\<close> is null iff the breakdown is empty;
  \<open>details\<close> is null exactly on the zero-income path and when the try block threw; and a
  summary with non-null \<open>details\<close> has at least seven rows, among them the seven
  unconditional ones.
\<close>

theorem details_null_iff_breakdown_empty:
  assumes "snd (useBox1Calculator ext i yr) = Inr s"
  shows "(details s = None) = (breakdown s = []) \<and>
     (details s = None) =
       (\<not> truthy_num (grossIncome (destructure i)) \<or> js_le (grossIncome (destructure i)) (Fin 0) \<or>
        (\<exists>e. snd (try_block ext (destructure i) (dflt yr (Fin 2025))) = Inl e)) \<and>
     (details s \<noteq> None \<longrightarrow>
        7 \<le> length (breakdown s) \<and>
        set [''Gross annual income'', ''Taxable income'', ''Payroll tax'', ''General tax credit'',
          ''Labour tax credit'', ''Total income tax'', ''Net annual income''] \<subseteq> set (map description (breakdown s)))"
proof (cases "details s")
  case None
  from hook_failure [OF assms None] have "breakdown s = []"
    by (auto simp: empty_summary_def)
  with None hook_details_None_iff [OF assms] show ?thesis by simp
next
  case (Some d)
  have b: "breakdown s = build_breakdown d (socialSecurity (destructure i))"
    using hook_success [OF assms Some] by (simp add: summary_of_def)
  have "set [''Gross annual income'', ''Taxable income'', ''Payroll tax'', ''General tax credit'',
          ''Labour tax credit'', ''Total income tax'', ''Net annual income''] \<subseteq> set (map description (breakdown s))"
    unfolding b build_breakdown_descriptions by simp
  with Some hook_details_None_iff [OF assms] b show ?thesis
    by (simp add: build_breakdown_not_Nil build_breakdown_length)
qed

theorem details_null_iff_breakdown_empty_witness:
  "details (summary_of example_details True) \<noteq> None \<and>
   breakdown (summary_of example_details True) \<noteq> [] \<and>
   7 \<le> length (breakdown (summary_of example_details True)) \<and>
   details empty_summary = None \<and> breakdown empty_summary = []"
  using details_null_iff_breakdown_empty [OF example_run]
    details_null_iff_breakdown_empty [of "returning (data_object example_props)" None None empty_summary]
    hook_zero_income [of None "returning (data_object example_props)" None]
  by (simp add: summary_of_def empty_summary_def destructure_def empty_object_def dflt_def)

text \<open>
  C10. In every successfully computed summary the breakdown has exactly one row labelled
  \<open>Taxable income\<close>, whose amount is \<open>taxableBase\<close>, and exactly one row labelled
  \<open>Net annual income\<close>, whose amount is \<open>netIncome\<close>; both figures are the details
  \<open>taxableYear\<close> and \<open>netYear\<close>.
\<close>

theorem top_level_matches_breakdown:
  assumes "snd (useBox1Calculator ext i yr) = Inr s" and "details s = Some d"
  shows "filter (\<lambda>r. description r = ''Taxable income'') (breakdown s) =
       [\<lparr>description = ''Taxable income'', amount = taxableBase s\<rparr>] \<and>
     filter (\<lambda>r. description r = ''Net annual income'') (breakdown s) =
       [\<lparr>description = ''Net annual income'', amount = netIncome s\<rparr>] \<and>
     taxableBase s = taxableYear d \<and> netIncome s = netYear d"
  using hook_success [OF assms]
  by (simp add: summary_of_def build_breakdown_taxable build_breakdown_net)

theorem top_level_matches_breakdown_witness:
  "filter (\<lambda>r. description r = ''Taxable income'') (breakdown (summary_of example_details True)) =
       [\<lparr>description = ''Taxable income'', amount = Fin 55556\<rparr>] \<and>
   filter (\<lambda>r. description r = ''Net annual income'') (breakdown (summary_of example_details True)) =
       [\<lparr>description = ''Net annual income'', amount = Fin 49000\<rparr>] \<and>
   taxableBase (summary_of example_details True) = Fin 55556 \<and>
   netIncome (summary_of example_details True) = Fin 49000"
  using top_level_matches_breakdown [OF example_run example_details_sel]
  by (simp add: summary_of_def example_details_def)

end
